theory Spec2Isabelle
  imports Main "HOL-Library.Sublist"
begin

section \<open>The user manager component (src/src/App.jsx)\<close>

text \<open>
  The component keeps all of its data in React state cells and talks to four REST
  endpoints. Every handler of the source is embedded as a function on a record of the
  state cells. An asynchronous handler is split at its \<^verbatim>\<open>await\<close>: the part
  that runs when the handler is called returns the new state and the requests it issues,
  and the part that runs when the response arrives takes the outcome of the request and
  the state at that moment (the source writes state there only through setters and
  functional updates, so it sees the current list, not the one of the render that
  started the handler). Presentation (styles, the Avatar component, focus handling,
  console logging, the copy of the theme flag in browser storage) is left out.
\<close>

subsection \<open>Data\<close>

text \<open>
  Identifiers come from JSON and from \<^verbatim>\<open>Date.now()\<close>: numbers or strings. The source
  tests them for truthiness (\<^verbatim>\<open>editId || Date.now()\<close>) and compares them with
  \<^verbatim>\<open>===\<close>.
\<close>

datatype ident = NumId int | StrId string

fun truthy_id :: "ident \<Rightarrow> bool" where
  "truthy_id (NumId n) = (n \<noteq> 0)"
| "truthy_id (StrId t) = (t \<noteq> [])"

record user =
  user_id :: ident
  user_name :: string
  user_email :: string
  user_avatar :: "string option"
  user_username :: "string option"
  user_city :: "string option"
  user_company :: "string option"
  user_createdAt :: "string option"

record post =
  post_id :: ident
  post_title :: string
  post_body :: string
  post_userId :: ident

record album =
  album_id :: ident
  album_title :: string
  album_userId :: ident
  album_thumbnailUrl :: "string option"

record photo =
  photo_id :: ident
  photo_albumId :: ident
  photo_thumbnailUrl :: "string option"

record file_info =
  file_type :: string
  file_size :: nat

record new_post =
  np_title :: string
  np_body :: string
  np_userId :: ident

text \<open>The state cells of \<^verbatim>\<open>App\<close>, one field for each \<^verbatim>\<open>useState\<close>.\<close>

record app_state =
  users :: "user list"
  selectedUser :: "user option"
  posts :: "post list"
  loadingUsers :: bool
  loadingPosts :: bool
  error :: string
  name :: string
  email :: string
  avatarPreview :: "string option"
  avatarFile :: "file_info option"
  editId :: "ident option"
  formLoading :: bool
  isDragging :: bool
  showPostForm :: bool
  postTitle :: string
  postBody :: string
  postLoading :: bool
  albums :: "album list"
  loadingAlbums :: bool
  activeTab :: string
  darkMode :: bool

definition initial_state :: "bool \<Rightarrow> app_state" where
  "initial_state dark =
     \<lparr> users = [], selectedUser = None, posts = [], loadingUsers = False,
       loadingPosts = False, error = [], name = [], email = [],
       avatarPreview = Some [], avatarFile = None, editId = None, formLoading = False,
       isDragging = False, showPostForm = False, postTitle = [], postBody = [],
       postLoading = False, albums = [], loadingAlbums = False, activeTab = ''posts'',
       darkMode = dark \<rparr>"

subsection \<open>The network\<close>

text \<open>
  The requests the component issues. \<^verbatim>\<open>GetPhotos a n\<close> is
  \<^verbatim>\<open>GET {PHOTOS_API}?albumId=a&_limit=n\<close>.
\<close>

datatype request =
    GetUsers
  | GetPosts ident
  | GetAlbums ident
  | GetPhotos ident nat
  | PostPost new_post
  | PutUser ident user
  | PostUser user
  | DeleteUser ident

text \<open>
  The outcome of one \<^verbatim>\<open>fetch\<close>: the promise rejects, or it resolves to a response with
  its \<^verbatim>\<open>ok\<close> flag and the result of \<^verbatim>\<open>res.json()\<close> (\<open>None\<close> when the body does
  not parse, so that \<^verbatim>\<open>res.json()\<close> rejects).
\<close>

datatype 'a response = Rejected | Resolved bool "'a option"

text \<open>
  \<^verbatim>\<open>const res = await fetch(..); if (!res.ok) throw ..; const data = await res.json()\<close>:
  the data the \<^verbatim>\<open>try\<close> block gets, or \<open>None\<close> when one of the three throws.
\<close>

fun fetched :: "'a response \<Rightarrow> 'a option" where
  "fetched Rejected = None"
| "fetched (Resolved ok body) = (if ok then body else None)"

text \<open>\<^verbatim>\<open>const res = await fetch(..); const data = await res.json()\<close>, with no look at \<^verbatim>\<open>res.ok\<close>.\<close>

fun parsed :: "'a response \<Rightarrow> 'a option" where
  "parsed Rejected = None"
| "parsed (Resolved ok body) = body"

text \<open>\<^verbatim>\<open>await fetch(..)\<close> alone: does the promise resolve?\<close>

fun settled :: "'a response \<Rightarrow> bool" where
  "settled Rejected = False"
| "settled (Resolved ok body) = True"

subsection \<open>Strings\<close>

text \<open>
  A string is a list of code units below 256. \<^verbatim>\<open>trim\<close> strips the white space and line
  terminators of ECMAScript at both ends; those below 256 are TAB, LF, VT, FF, CR, SP and NBSP.
\<close>

definition is_space :: "char \<Rightarrow> bool" where
  "is_space c = (of_char c \<in> {9, 10, 11, 12, 13, 32, 160 :: nat})"

definition trim :: "string \<Rightarrow> string" where
  "trim t = rev (dropWhile is_space (rev (dropWhile is_space t)))"

definition blank :: "string \<Rightarrow> bool" where
  "blank t = list_all is_space t"

text \<open>Truthiness of a string cell that may hold \<^verbatim>\<open>null\<close>, and \<^verbatim>\<open>a || b\<close> on such cells.\<close>

fun truthy_str :: "string option \<Rightarrow> bool" where
  "truthy_str None = False"
| "truthy_str (Some t) = (t \<noteq> [])"

definition or_else :: "string option \<Rightarrow> string option \<Rightarrow> string option" where
  "or_else a b = (if truthy_str a then a else b)"

text \<open>
  Functions of the platform the source calls on strings; the handlers take them as
  parameters.
\<close>

record platform =
  encodeURIComponent :: "string \<Rightarrow> string"
  toLowerCase :: "string \<Rightarrow> string"

subsection \<open>Avatar helpers\<close>

definition generateAvatarUrl :: "platform \<Rightarrow> string option \<Rightarrow> string option" where
  "generateAvatarUrl p nm =
     (case nm of
        None \<Rightarrow> None
      | Some n \<Rightarrow>
          if trim n = [] then None
          else Some (''https://ui-avatars.com/api/?name='' @ encodeURIComponent p (trim n)
                     @ ''&size=128&background=random&bold=true&format=png''))"

text \<open>
  \<^verbatim>\<open>processFile\<close> returns the state and whether it started a \<^verbatim>\<open>FileReader\<close>; the
  reader's two callbacks follow.
\<close>

definition processFile :: "file_info option \<Rightarrow> app_state \<Rightarrow> app_state \<times> bool" where
  "processFile fo s =
     (case fo of
        None \<Rightarrow> (s, False)
      | Some f \<Rightarrow>
          if \<not> prefix ''image/'' (file_type f)
          then (s\<lparr>error := ''Please select a valid image.''\<rparr>, False)
          else if file_size f > 5 * 1024 * 1024
          then (s\<lparr>error := ''Image must be < 5 MB.''\<rparr>, False)
          else (s, True))"

definition reader_onload :: "string \<Rightarrow> file_info \<Rightarrow> app_state \<Rightarrow> app_state" where
  "reader_onload result f s = s\<lparr>avatarPreview := Some result, avatarFile := Some f, error := []\<rparr>"

definition reader_onerror :: "app_state \<Rightarrow> app_state" where
  "reader_onerror s = s\<lparr>error := ''Failed to read file.''\<rparr>"

definition toggleDarkMode :: "app_state \<Rightarrow> app_state" where
  "toggleDarkMode s = s\<lparr>darkMode := \<not> darkMode s\<rparr>"

subsection \<open>API calls\<close>

definition loadUsers_begin :: "app_state \<Rightarrow> app_state \<times> request list" where
  "loadUsers_begin s = (s\<lparr>loadingUsers := True, error := []\<rparr>, [GetUsers])"

definition loadUsers_resume :: "user list response \<Rightarrow> app_state \<Rightarrow> app_state" where
  "loadUsers_resume r s =
     (case fetched r of
        Some data \<Rightarrow> s\<lparr>users := take 9 data\<rparr>
      | None \<Rightarrow> s\<lparr>error := ''Failed to load users.''\<rparr>)\<lparr>loadingUsers := False\<rparr>"

definition loadPosts_begin :: "ident \<Rightarrow> app_state \<Rightarrow> app_state \<times> request list" where
  "loadPosts_begin userId s = (s\<lparr>loadingPosts := True, error := []\<rparr>, [GetPosts userId])"

definition loadPosts_resume :: "post list response \<Rightarrow> app_state \<Rightarrow> app_state" where
  "loadPosts_resume r s =
     (case fetched r of
        Some data \<Rightarrow> s\<lparr>posts := data\<rparr>
      | None \<Rightarrow> s\<lparr>error := ''Failed to load posts.''\<rparr>)\<lparr>loadingPosts := False\<rparr>"

text \<open>
  \<^verbatim>\<open>loadAlbums\<close> awaits the album list and then, through \<^verbatim>\<open>Promise.all\<close>, one
  callback for each album; every callback issues its photo request as soon as it is
  created. The outcome of the album request therefore carries each album together with
  the outcome of the photo request of its callback.

  \<^verbatim>\<open>photos[0]?.thumbnailUrl || null\<close>: \<^verbatim>\<open>null\<close> when there is no photo, and also when
  the first photo has no thumbnail URL or an empty one.
\<close>

definition firstThumbnail :: "photo list \<Rightarrow> string option" where
  "firstThumbnail photos =
     (case photos of
        [] \<Rightarrow> None
      | ph # _ \<Rightarrow> or_else (photo_thumbnailUrl ph) None)"

definition photo_request :: "album \<Rightarrow> request" where
  "photo_request a = GetPhotos (album_id a) 1"

definition albumWithThumb :: "album \<times> photo list response \<Rightarrow> album option" where
  "albumWithThumb ar =
     (case parsed (snd ar) of
        None \<Rightarrow> None
      | Some photos \<Rightarrow> Some ((fst ar)\<lparr>album_thumbnailUrl := firstThumbnail photos\<rparr>))"

definition loadAlbums_begin :: "ident \<Rightarrow> app_state \<Rightarrow> app_state \<times> request list" where
  "loadAlbums_begin userId s = (s\<lparr>loadingAlbums := True, error := []\<rparr>, [GetAlbums userId])"

definition loadAlbums_resume ::
  "(album \<times> photo list response) list response \<Rightarrow> app_state \<Rightarrow> app_state \<times> request list" where
  "loadAlbums_resume r s =
     (case fetched r of
        None \<Rightarrow> (s\<lparr>error := ''Failed to load albums.'', loadingAlbums := False\<rparr>, [])
      | Some albumsData \<Rightarrow>
          ((case those (map albumWithThumb albumsData) of
              Some albumsWithThumb \<Rightarrow> s\<lparr>albums := albumsWithThumb\<rparr>
            | None \<Rightarrow> s\<lparr>error := ''Failed to load albums.''\<rparr>)\<lparr>loadingAlbums := False\<rparr>,
           map (photo_request \<circ> fst) albumsData))"

text \<open>
  \<^verbatim>\<open>createPost\<close> reads \<^verbatim>\<open>selectedUser.id\<close> after \<^verbatim>\<open>setPostLoading(true)\<close> and
  outside the \<^verbatim>\<open>try\<close>: with no selected user that read throws and nothing is sent.
  The time is read when the functional update of \<^verbatim>\<open>posts\<close> runs.
\<close>

definition createPost_begin :: "app_state \<Rightarrow> app_state \<times> request list" where
  "createPost_begin s =
     (if trim (postTitle s) = [] \<or> trim (postBody s) = []
      then (s\<lparr>error := ''Title and body are required''\<rparr>, [])
      else (s\<lparr>postLoading := True\<rparr>,
            case selectedUser s of
              None \<Rightarrow> []
            | Some u \<Rightarrow>
                [PostPost \<lparr>np_title = trim (postTitle s), np_body = trim (postBody s),
                           np_userId = user_id u\<rparr>]))"

definition createPost_resume :: "int \<Rightarrow> post response \<Rightarrow> app_state \<Rightarrow> app_state" where
  "createPost_resume now r s =
     (case fetched r of
        Some created \<Rightarrow>
          s\<lparr>posts := created\<lparr>post_id := NumId now\<rparr> # posts s, postTitle := [],
            postBody := [], showPostForm := False, error := []\<rparr>
      | None \<Rightarrow> s\<lparr>error := ''Failed to create post.''\<rparr>)\<lparr>postLoading := False\<rparr>"

subsection \<open>Modal helpers\<close>

definition openUserPosts :: "user \<Rightarrow> app_state \<Rightarrow> app_state \<times> request list" where
  "openUserPosts u s =
     loadPosts_begin (user_id u)
       (s\<lparr>selectedUser := Some u, posts := [], albums := [], showPostForm := False,
          activeTab := ''posts''\<rparr>)"

definition closePosts :: "app_state \<Rightarrow> app_state" where
  "closePosts s = s\<lparr>selectedUser := None, posts := [], albums := [], showPostForm := False\<rparr>"

text \<open>
  The two tab buttons. The handler reads \<^verbatim>\<open>selectedUser.id\<close> only when it is about to
  load; the buttons are rendered only while a user is selected.
\<close>

definition postsTabClick :: "app_state \<Rightarrow> app_state \<times> request list" where
  "postsTabClick s =
     (let s' = s\<lparr>activeTab := ''posts''\<rparr> in
      if posts s = []
      then (case selectedUser s of None \<Rightarrow> (s', []) | Some u \<Rightarrow> loadPosts_begin (user_id u) s')
      else (s', []))"

definition albumsTabClick :: "app_state \<Rightarrow> app_state \<times> request list" where
  "albumsTabClick s =
     (let s' = s\<lparr>activeTab := ''albums''\<rparr> in
      if albums s = []
      then (case selectedUser s of None \<Rightarrow> (s', []) | Some u \<Rightarrow> loadAlbums_begin (user_id u) s')
      else (s', []))"

definition addPostClick :: "app_state \<Rightarrow> app_state" where
  "addPostClick s = s\<lparr>showPostForm := True\<rparr>"

definition cancelPostClick :: "app_state \<Rightarrow> app_state" where
  "cancelPostClick s = s\<lparr>showPostForm := False, postTitle := [], postBody := []\<rparr>"

text \<open>
  What the new-post form shows: it is rendered inside the modal, on the posts tab, while
  \<^verbatim>\<open>showPostForm\<close> holds, with the two cells as the values of its fields.
\<close>

definition post_form_view :: "app_state \<Rightarrow> (string \<times> string) option" where
  "post_form_view s =
     (if selectedUser s \<noteq> None \<and> activeTab s = ''posts'' \<and> showPostForm s
      then Some (postTitle s, postBody s) else None)"

subsection \<open>Drag and drop\<close>

definition handleFileChange :: "file_info option \<Rightarrow> app_state \<Rightarrow> app_state \<times> bool" where
  "handleFileChange fo s = processFile fo s"

definition handleDrop :: "file_info option \<Rightarrow> app_state \<Rightarrow> app_state \<times> bool" where
  "handleDrop fo s = processFile fo (s\<lparr>isDragging := False\<rparr>)"

definition handleDragOver :: "app_state \<Rightarrow> app_state" where
  "handleDragOver s = s\<lparr>isDragging := True\<rparr>"

definition handleDragLeave :: "bool \<Rightarrow> app_state \<Rightarrow> app_state" where
  "handleDragLeave inside s = (if \<not> inside then s\<lparr>isDragging := False\<rparr> else s)"

definition removePreviewClick :: "app_state \<Rightarrow> app_state" where
  "removePreviewClick s = s\<lparr>avatarPreview := Some [], avatarFile := None\<rparr>"

subsection \<open>Form submit, edit and delete\<close>

definition resetForm :: "app_state \<Rightarrow> app_state" where
  "resetForm s =
     s\<lparr>name := [], email := [], avatarPreview := Some [], avatarFile := None,
       editId := None, error := []\<rparr>"

definition edit_target :: "app_state \<Rightarrow> ident option" where
  "edit_target s =
     (case editId s of None \<Rightarrow> None | Some i \<Rightarrow> if truthy_id i then Some i else None)"

definition handleSubmit_begin ::
  "platform \<Rightarrow> int \<Rightarrow> string \<Rightarrow> app_state \<Rightarrow> app_state \<times> request list" where
  "handleSubmit_begin p now stamp s =
     (if trim (name s) = [] \<or> trim (email s) = []
      then (s\<lparr>error := ''Name and email required''\<rparr>, [])
      else
        let avatarUrlForApi = or_else (avatarPreview s) (generateAvatarUrl p (Some (trim (name s))));
            payload = \<lparr> user_id = (case edit_target s of Some i \<Rightarrow> i | None \<Rightarrow> NumId now),
                        user_name = trim (name s), user_email = trim (email s),
                        user_avatar = avatarUrlForApi, user_username = None,
                        user_city = None, user_company = None, user_createdAt = None \<rparr>
        in (s\<lparr>formLoading := True\<rparr>,
            case edit_target s of
              Some i \<Rightarrow> [PutUser i payload]
            | None \<Rightarrow>
                [PostUser (payload\<lparr>
                   user_username := Some (filter (\<lambda>c. \<not> is_space c) (toLowerCase p (trim (name s)))),
                   user_city := Some ''Unknown'', user_company := Some ''Unknown'',
                   user_createdAt := Some stamp\<rparr>)]))"

text \<open>
  The continuation keeps the \<^verbatim>\<open>editId\<close> of the render that submitted (its truthy
  value, \<open>target\<close>) and updates the list through a functional update.
\<close>

definition handleSubmit_resume :: "ident option \<Rightarrow> user response \<Rightarrow> app_state \<Rightarrow> app_state" where
  "handleSubmit_resume target r s =
     (case fetched r of
        Some u \<Rightarrow>
          resetForm
            (case target of
               Some i \<Rightarrow> s\<lparr>users := map (\<lambda>v. if user_id v = i then u else v) (users s)\<rparr>
             | None \<Rightarrow> s\<lparr>users := u # users s\<rparr>)
      | None \<Rightarrow> s\<lparr>error := ''Operation failed.''\<rparr>)\<lparr>formLoading := False\<rparr>"

definition startEdit :: "platform \<Rightarrow> user \<Rightarrow> app_state \<Rightarrow> app_state" where
  "startEdit p u s =
     s\<lparr>editId := Some (user_id u), name := user_name u, email := user_email u,
       avatarPreview := or_else (user_avatar u) (generateAvatarUrl p (Some (user_name u))),
       avatarFile := None\<rparr>"

definition cancelEdit :: "app_state \<Rightarrow> app_state" where
  "cancelEdit s = resetForm s"

text \<open>\<open>confirmed\<close> is the answer of \<^verbatim>\<open>window.confirm\<close>.\<close>

definition handleDelete_begin :: "bool \<Rightarrow> ident \<Rightarrow> app_state \<Rightarrow> app_state \<times> request list" where
  "handleDelete_begin confirmed i s =
     (if \<not> confirmed then (s, []) else (s\<lparr>formLoading := True\<rparr>, [DeleteUser i]))"

definition handleDelete_resume :: "ident \<Rightarrow> 'a response \<Rightarrow> app_state \<Rightarrow> app_state" where
  "handleDelete_resume i r s =
     (if settled r
      then s\<lparr>users := filter (\<lambda>u. user_id u \<noteq> i) (users s)\<rparr>
      else s\<lparr>error := ''Delete failed.''\<rparr>)\<lparr>formLoading := False\<rparr>"

subsection \<open>Events\<close>

text \<open>
  One event for each handler the markup binds and for each continuation of an
  asynchronous handler. An event carries what the handler gets from outside: the input
  of the user, the clock, the outcome of a request, and for a continuation the values its
  closure captured when the handler started.
\<close>

datatype event =
    Mounted
  | UsersArrived "user list response"
  | NameTyped string
  | EmailTyped string
  | FilePicked "file_info option"
  | FileDropped "file_info option"
  | DraggedOver
  | DragLeft bool
  | ReaderLoaded string file_info
  | ReaderFailed
  | PreviewRemoved
  | FormSubmitted int string
  | SubmitSettled "ident option" "user response"
  | EditStarted user
  | EditCancelled
  | DeleteClicked bool ident
  | DeleteSettled ident "unit response"
  | PostsOpened user
  | PostsArrived "post list response"
  | ModalClosed
  | PostsTabClicked
  | AlbumsTabClicked
  | AlbumsArrived "(album \<times> photo list response) list response"
  | AddPostClicked
  | PostTitleTyped string
  | PostBodyTyped string
  | PostPublished
  | PostSettled int "post response"
  | PostCancelled
  | DarkToggled

fun step :: "platform \<Rightarrow> app_state \<Rightarrow> event \<Rightarrow> app_state \<times> request list" where
  "step p s Mounted = loadUsers_begin s"
| "step p s (UsersArrived r) = (loadUsers_resume r s, [])"
| "step p s (NameTyped t) = (s\<lparr>name := t\<rparr>, [])"
| "step p s (EmailTyped t) = (s\<lparr>email := t\<rparr>, [])"
| "step p s (FilePicked fo) = (fst (handleFileChange fo s), [])"
| "step p s (FileDropped fo) = (fst (handleDrop fo s), [])"
| "step p s DraggedOver = (handleDragOver s, [])"
| "step p s (DragLeft inside) = (handleDragLeave inside s, [])"
| "step p s (ReaderLoaded result f) = (reader_onload result f s, [])"
| "step p s ReaderFailed = (reader_onerror s, [])"
| "step p s PreviewRemoved = (removePreviewClick s, [])"
| "step p s (FormSubmitted now stamp) = handleSubmit_begin p now stamp s"
| "step p s (SubmitSettled target r) = (handleSubmit_resume target r s, [])"
| "step p s (EditStarted u) = (startEdit p u s, [])"
| "step p s EditCancelled = (cancelEdit s, [])"
| "step p s (DeleteClicked confirmed i) = handleDelete_begin confirmed i s"
| "step p s (DeleteSettled i r) = (handleDelete_resume i r s, [])"
| "step p s (PostsOpened u) = openUserPosts u s"
| "step p s (PostsArrived r) = (loadPosts_resume r s, [])"
| "step p s ModalClosed = (closePosts s, [])"
| "step p s PostsTabClicked = postsTabClick s"
| "step p s AlbumsTabClicked = albumsTabClick s"
| "step p s (AlbumsArrived r) = loadAlbums_resume r s"
| "step p s AddPostClicked = (addPostClick s, [])"
| "step p s (PostTitleTyped t) = (s\<lparr>postTitle := t\<rparr>, [])"
| "step p s (PostBodyTyped t) = (s\<lparr>postBody := t\<rparr>, [])"
| "step p s PostPublished = createPost_begin s"
| "step p s (PostSettled now r) = (createPost_resume now r s, [])"
| "step p s PostCancelled = (cancelPostClick s, [])"
| "step p s DarkToggled = (toggleDarkMode s, [])"

text \<open>A run of events: the last state and every request issued, in order.\<close>

fun run :: "platform \<Rightarrow> app_state \<Rightarrow> event list \<Rightarrow> app_state \<times> request list" where
  "run p s [] = (s, [])"
| "run p s (e # es) =
     (case step p s e of
        (s', rs) \<Rightarrow> (case run p s' es of (s'', rs') \<Rightarrow> (s'', rs @ rs')))"

text \<open>An album fetch is one call of \<^verbatim>\<open>loadAlbums\<close>: one request for the album list.\<close>

fun is_album_fetch :: "request \<Rightarrow> bool" where
  "is_album_fetch (GetAlbums i) = True"
| "is_album_fetch r = False"

definition album_fetches :: "request list \<Rightarrow> nat" where
  "album_fetches rs = length (filter is_album_fetch rs)"

text \<open>
  Events inside one modal session that leave the album list alone: the modal is neither
  opened nor closed, and no album load completes.
\<close>

fun in_session :: "event \<Rightarrow> bool" where
  "in_session (PostsOpened u) = False"
| "in_session ModalClosed = False"
| "in_session (AlbumsArrived r) = False"
| "in_session e = True"

text \<open>A platform for closed examples: names that need no escaping and are in lower case.\<close>

definition plain_platform :: platform where
  "plain_platform = \<lparr> encodeURIComponent = id, toLowerCase = id \<rparr>"

text \<open>Sample data for the closed examples.\<close>

definition sample_user :: "int \<Rightarrow> user" where
  "sample_user n =
     \<lparr> user_id = NumId n, user_name = ''Ann'', user_email = ''ann@example.org'',
       user_avatar = None, user_username = None, user_city = None, user_company = None,
       user_createdAt = None \<rparr>"

definition sample_post :: "int \<Rightarrow> post" where
  "sample_post n =
     \<lparr> post_id = NumId n, post_title = ''Hello'', post_body = ''First post'',
       post_userId = NumId 1 \<rparr>"

definition sample_album :: "int \<Rightarrow> album" where
  "sample_album n =
     \<lparr> album_id = NumId n, album_title = ''Trip'', album_userId = NumId 1,
       album_thumbnailUrl = None \<rparr>"

definition sample_photo :: "string option \<Rightarrow> photo" where
  "sample_photo t = \<lparr> photo_id = NumId 1, photo_albumId = NumId 1, photo_thumbnailUrl = t \<rparr>"

section \<open>Auxiliary facts\<close>

lemma blank_trim: "blank t \<longleftrightarrow> trim t = []"
proof
  assume "blank t"
  then show "trim t = []"
    by (auto simp: blank_def list_all_iff trim_def dest: set_dropWhileD)
next
  assume "trim t = []"
  then have a: "\<forall>x\<in>set (dropWhile is_space t). is_space x"
    by (simp add: trim_def)
  have "dropWhile is_space t = []"
  proof (rule ccontr)
    assume n: "dropWhile is_space t \<noteq> []"
    then have "\<not> is_space (hd (dropWhile is_space t))"
      by (rule hd_dropWhile)
    moreover have "hd (dropWhile is_space t) \<in> set (dropWhile is_space t)"
      using n by simp
    ultimately show False
      using a by blast
  qed
  then show "blank t"
    by (simp add: blank_def list_all_iff)
qed

lemma those_map_None: "those (map f xs) = None \<longleftrightarrow> (\<exists>x\<in>set xs. f x = None)"
  by (induction xs) (auto split: option.splits)

lemma album_fetches_append: "album_fetches (xs @ ys) = album_fetches xs + album_fetches ys"
  by (simp add: album_fetches_def)

lemma run_append:
  "run p s (xs @ ys) =
     (case run p s xs of (s', rs) \<Rightarrow> (case run p s' ys of (s'', rs') \<Rightarrow> (s'', rs @ rs')))"
  by (induction xs arbitrary: s) (auto split: prod.splits)

lemmas handler_defs =
  loadUsers_begin_def loadUsers_resume_def loadPosts_begin_def loadPosts_resume_def
  loadAlbums_begin_def loadAlbums_resume_def createPost_begin_def createPost_resume_def
  openUserPosts_def closePosts_def postsTabClick_def albumsTabClick_def addPostClick_def
  cancelPostClick_def handleFileChange_def handleDrop_def handleDragOver_def
  handleDragLeave_def removePreviewClick_def resetForm_def handleSubmit_begin_def
  handleSubmit_resume_def startEdit_def cancelEdit_def handleDelete_begin_def
  handleDelete_resume_def processFile_def reader_onload_def reader_onerror_def
  toggleDarkMode_def

text \<open>
  Only \<^verbatim>\<open>openUserPosts\<close>, \<^verbatim>\<open>closePosts\<close> and the end of \<^verbatim>\<open>loadAlbums\<close> write the album
  list, and only the first two write the selected user.
\<close>

lemma step_in_session:
  assumes "in_session e"
  shows "albums (fst (step p s e)) = albums s \<and> selectedUser (fst (step p s e)) = selectedUser s"
  using assms
  by (cases e) (simp_all add: handler_defs Let_def split: option.split)

lemma step_no_album_fetch:
  assumes "in_session e" and "e \<noteq> AlbumsTabClicked"
  shows "album_fetches (snd (step p s e)) = 0"
  using assms
  by (cases e) (simp_all add: handler_defs album_fetches_def Let_def split: option.split)

lemma tab_no_album_fetch:
  assumes "albums s \<noteq> []"
  shows "album_fetches (snd (step p s AlbumsTabClicked)) = 0"
  using assms by (simp add: albumsTabClick_def album_fetches_def)

lemma run_before_albums:
  assumes "\<forall>e\<in>set es. in_session e \<and> e \<noteq> AlbumsTabClicked"
  shows "albums (fst (run p s es)) = albums s \<and> selectedUser (fst (run p s es)) = selectedUser s
         \<and> album_fetches (snd (run p s es)) = 0"
  using assms
proof (induction es arbitrary: s)
  case Nil
  then show ?case by (simp add: album_fetches_def)
next
  case (Cons e es)
  obtain s' rs where st: "step p s e = (s', rs)" by (cases "step p s e")
  have e: "in_session e" "e \<noteq> AlbumsTabClicked" using Cons.prems by simp_all
  have keep: "albums s' = albums s" "selectedUser s' = selectedUser s"
    using step_in_session [OF e(1), of p s] st by simp_all
  have none: "album_fetches rs = 0"
    using step_no_album_fetch [OF e, of p s] st by simp
  have ih: "albums (fst (run p s' es)) = albums s' \<and> selectedUser (fst (run p s' es)) = selectedUser s'
         \<and> album_fetches (snd (run p s' es)) = 0"
    using Cons.IH [of s'] Cons.prems by simp
  show ?case
    using st keep none ih by (simp add: album_fetches_append split_beta)
qed

lemma run_after_albums:
  assumes "albums s \<noteq> []" and "\<forall>e\<in>set es. in_session e"
  shows "album_fetches (snd (run p s es)) = 0"
  using assms
proof (induction es arbitrary: s)
  case Nil
  then show ?case by (simp add: album_fetches_def)
next
  case (Cons e es)
  obtain s' rs where st: "step p s e = (s', rs)" by (cases "step p s e")
  have e: "in_session e" using Cons.prems by simp
  have keep: "albums s' \<noteq> []"
    using step_in_session [OF e, of p s] st Cons.prems(1) by simp
  have none: "album_fetches rs = 0"
  proof (cases "e = AlbumsTabClicked")
    case True
    then show ?thesis using tab_no_album_fetch [OF Cons.prems(1), of p] st by simp
  next
    case False
    then show ?thesis using step_no_album_fetch [OF e False, of p s] st by simp
  qed
  have "album_fetches (snd (run p s' es)) = 0"
    using Cons.IH [OF keep] Cons.prems(2) by simp
  then show ?case
    using st none by (simp add: album_fetches_append split_beta)
qed

text \<open>
  A loading flag is written only by the start and the end of its own load, so every
  other event leaves a raised flag up; so does a run of such events.
\<close>

lemma step_flags_held:
  "((\<forall>r. e \<noteq> UsersArrived r) \<longrightarrow> loadingUsers s \<longrightarrow> loadingUsers (fst (step p s e)))
   \<and> ((\<forall>r. e \<noteq> PostsArrived r) \<longrightarrow> loadingPosts s \<longrightarrow> loadingPosts (fst (step p s e)))
   \<and> ((\<forall>r. e \<noteq> AlbumsArrived r) \<longrightarrow> loadingAlbums s \<longrightarrow> loadingAlbums (fst (step p s e)))"
  by (cases e) (simp_all add: handler_defs Let_def split: option.split)

lemma fst_run_Cons: "fst (run p s (e # es)) = fst (run p (fst (step p s e)) es)"
  by (simp add: split_beta)

lemma run_users_flag_held:
  assumes "\<forall>e\<in>set es. \<forall>r. e \<noteq> UsersArrived r" and "loadingUsers s"
  shows "loadingUsers (fst (run p s es))"
  using assms
proof (induction es arbitrary: s)
  case Nil
  then show ?case by simp
next
  case (Cons e es)
  have "loadingUsers (fst (step p s e))"
    using step_flags_held [of e s p] Cons.prems by simp
  then have "loadingUsers (fst (run p (fst (step p s e)) es))"
    using Cons.IH Cons.prems(1) by simp
  then show ?case by (simp only: fst_run_Cons)
qed

lemma run_posts_flag_held:
  assumes "\<forall>e\<in>set es. \<forall>r. e \<noteq> PostsArrived r" and "loadingPosts s"
  shows "loadingPosts (fst (run p s es))"
  using assms
proof (induction es arbitrary: s)
  case Nil
  then show ?case by simp
next
  case (Cons e es)
  have "loadingPosts (fst (step p s e))"
    using step_flags_held [of e s p] Cons.prems by simp
  then have "loadingPosts (fst (run p (fst (step p s e)) es))"
    using Cons.IH Cons.prems(1) by simp
  then show ?case by (simp only: fst_run_Cons)
qed

lemma run_albums_flag_held:
  assumes "\<forall>e\<in>set es. \<forall>r. e \<noteq> AlbumsArrived r" and "loadingAlbums s"
  shows "loadingAlbums (fst (run p s es))"
  using assms
proof (induction es arbitrary: s)
  case Nil
  then show ?case by simp
next
  case (Cons e es)
  have "loadingAlbums (fst (step p s e))"
    using step_flags_held [of e s p] Cons.prems by simp
  then have "loadingAlbums (fst (run p (fst (step p s e)) es))"
    using Cons.IH Cons.prems(1) by simp
  then show ?case by (simp only: fst_run_Cons)
qed

section \<open>The claims\<close>

subsection \<open>C1: album fetches in a modal session\<close>

text \<open>
  Claim C1 says that a modal session sees exactly one album fetch however often the
  Albums tab is selected. The button's guard is \<^verbatim>\<open>albums.length === 0\<close>, so the claim
  fails for a user without albums: the first load stores the empty list and the next
  selection of the tab loads again. Here the modal is opened, the posts arrive, the
  Albums tab is selected and gets an empty album list, and the tab is left and selected
  again: two album fetches.
\<close>

theorem albums_tab_refetches_empty:
  "album_fetches (snd (run plain_platform (initial_state False)
     [PostsOpened (sample_user 1), PostsArrived (Resolved True (Some [sample_post 1])),
      AlbumsTabClicked, AlbumsArrived (Resolved True (Some [])),
      PostsTabClicked, AlbumsTabClicked])) = 2"
  by (simp add: initial_state_def openUserPosts_def loadPosts_begin_def loadPosts_resume_def
      albumsTabClick_def loadAlbums_begin_def loadAlbums_resume_def postsTabClick_def
      album_fetches_def sample_post_def)

text \<open>
  Claim C1, amended: selecting the Albums tab calls \<^verbatim>\<open>loadAlbums\<close> exactly when the
  album list is empty at that moment (and a user is selected). Hence a modal session
  sees exactly one album fetch, however often the tab is selected, when the load started
  by the first selection of the tab stores a non-empty list and the tab is not selected
  again while that load is in flight, as long as the modal stays open and no further
  album load completes. Whatever else happens before the first selection, while the
  load is in flight and afterwards does not matter. (A selection while the list is still
  empty, because the load is in flight, returned no album or failed, fetches again.)
\<close>

theorem albums_tab_fetches_once_after_load:
  assumes pre: "\<forall>e\<in>set pre. in_session e \<and> e \<noteq> AlbumsTabClicked"
      and mid: "\<forall>e\<in>set mid. in_session e \<and> e \<noteq> AlbumsTabClicked"
      and loaded: "those (map albumWithThumb albumsData) = Some loaded" "loaded \<noteq> []"
      and rest: "\<forall>e\<in>set rest. in_session e"
  shows "album_fetches (snd (albumsTabClick s0))
           = (if albums s0 = [] \<and> selectedUser s0 \<noteq> None then 1 else 0)
         \<and> album_fetches (snd (run p s
             (PostsOpened u # pre @ AlbumsTabClicked # mid
                @ AlbumsArrived (Resolved True (Some albumsData)) # rest))) = 1"
proof -
  have click: "album_fetches (snd (albumsTabClick s0))
           = (if albums s0 = [] \<and> selectedUser s0 \<noteq> None then 1 else 0)"
    by (auto simp: albumsTabClick_def loadAlbums_begin_def album_fetches_def Let_def
        split: option.split)
  obtain s1 r1 where o: "step p s (PostsOpened u) = (s1, r1)"
    by (cases "step p s (PostsOpened u)")
  have s1: "albums s1 = []" "selectedUser s1 = Some u" "album_fetches r1 = 0"
    using o by (auto simp: openUserPosts_def loadPosts_begin_def album_fetches_def)
  obtain s2 r2 where p2: "run p s1 pre = (s2, r2)"
    by (cases "run p s1 pre")
  have s2: "albums s2 = []" "selectedUser s2 = Some u" "album_fetches r2 = 0"
    using run_before_albums [OF pre, of p s1] p2 s1 by simp_all
  obtain s3 r3 where c: "step p s2 AlbumsTabClicked = (s3, r3)"
    by (cases "step p s2 AlbumsTabClicked")
  have s3: "album_fetches r3 = 1"
    using c s2 by (auto simp: albumsTabClick_def loadAlbums_begin_def album_fetches_def)
  obtain s3' r3' where m: "run p s3 mid = (s3', r3')"
    by (cases "run p s3 mid")
  have s3': "album_fetches r3' = 0"
    using run_before_albums [OF mid, of p s3] m by simp
  obtain s4 r4 where a: "step p s3' (AlbumsArrived (Resolved True (Some albumsData))) = (s4, r4)"
    by (cases "step p s3' (AlbumsArrived (Resolved True (Some albumsData)))")
  have s4: "albums s4 = loaded" "album_fetches r4 = 0"
    using a loaded by (auto simp: loadAlbums_resume_def album_fetches_def photo_request_def)
  obtain s5 r5 where r: "run p s4 rest = (s5, r5)"
    by (cases "run p s4 rest")
  have s5: "album_fetches r5 = 0"
    using run_after_albums [OF _ rest, of s4 p] s4 loaded r by simp
  have tail: "album_fetches (snd (run p s3
       (mid @ AlbumsArrived (Resolved True (Some albumsData)) # rest))) = 0"
    using m a r s3' s4 s5
    by (simp add: run_append album_fetches_append split_beta)
  have "album_fetches (snd (run p s
             (PostsOpened u # pre @ AlbumsTabClicked # mid
                @ AlbumsArrived (Resolved True (Some albumsData)) # rest))) = 1"
    using o p2 c s1 s2 s3 tail
    by (simp add: run_append album_fetches_append split_beta)
  with click show ?thesis by blast
qed

theorem albums_tab_fetches_once_after_load_witness:
  "album_fetches (snd (run plain_platform (initial_state False)
     [PostsOpened (sample_user 1), AddPostClicked, AlbumsTabClicked,
      PostsArrived (Resolved True (Some [sample_post 1])),
      AlbumsArrived (Resolved True
        (Some [(sample_album 7, Resolved True (Some [sample_photo (Some ''t.png'')]))])),
      PostsTabClicked, AlbumsTabClicked, AlbumsTabClicked])) = 1"
  using albums_tab_fetches_once_after_load
    [of "[AddPostClicked]"
        "[PostsArrived (Resolved True (Some [sample_post 1]))]"
        "[(sample_album 7, Resolved True (Some [sample_photo (Some ''t.png'')]))]"
        "[(sample_album 7)\<lparr>album_thumbnailUrl := Some ''t.png''\<rparr>]"
        "[PostsTabClicked, AlbumsTabClicked, AlbumsTabClicked]"
        "initial_state False" plain_platform "initial_state False" "sample_user 1"]
  by (simp add: albumWithThumb_def firstThumbnail_def or_else_def sample_photo_def)

subsection \<open>C2: the users list is cut to nine\<close>

text \<open>
  Claim C2: when the users endpoint answers with a list, \<^verbatim>\<open>loadUsers\<close> stores its first
  nine elements, in the order of the response; a list of at most nine elements is stored
  whole.
\<close>

theorem loadUsers_first_nine:
  "users (loadUsers_resume (Resolved True (Some data)) s) = take 9 data
   \<and> (length data \<le> 9 \<longrightarrow> users (loadUsers_resume (Resolved True (Some data)) s) = data)"
  by (simp add: loadUsers_resume_def)

theorem loadUsers_first_nine_witness:
  "users (loadUsers_resume
      (Resolved True (Some (map sample_user [1, 2, 3, 4, 5, 6, 7, 8, 9, 10, 11])))
      (initial_state False))
     = map sample_user [1, 2, 3, 4, 5, 6, 7, 8, 9]
   \<and> users (loadUsers_resume (Resolved True (Some [sample_user 1, sample_user 2]))
        (initial_state False))
     = [sample_user 1, sample_user 2]"
  using loadUsers_first_nine
    [of "map sample_user [1, 2, 3, 4, 5, 6, 7, 8, 9, 10, 11]" "initial_state False"]
    loadUsers_first_nine [of "[sample_user 1, sample_user 2]" "initial_state False"]
  by simp

subsection \<open>C3: validation of the user form\<close>

text \<open>
  Claim C3: when the name or the email is empty or holds white space only,
  \<^verbatim>\<open>handleSubmit\<close> sends nothing, sets the validation message and leaves the users list
  as it is.
\<close>

theorem handleSubmit_validation:
  assumes "blank (name s) \<or> blank (email s)"
  shows "snd (handleSubmit_begin p now stamp s) = []
         \<and> error (fst (handleSubmit_begin p now stamp s)) = ''Name and email required''
         \<and> users (fst (handleSubmit_begin p now stamp s)) = users s"
  using assms by (auto simp: blank_trim handleSubmit_begin_def)

theorem handleSubmit_validation_witness:
  "blank ''  ''
   \<and> snd (handleSubmit_begin plain_platform 1700000000000 ''2023-11-14T22:13:20.000Z''
        ((initial_state False)\<lparr>users := [sample_user 1], name := ''  '', email := ''ann@example.org''\<rparr>)) = []
   \<and> error (fst (handleSubmit_begin plain_platform 1700000000000 ''2023-11-14T22:13:20.000Z''
        ((initial_state False)\<lparr>users := [sample_user 1], name := ''  '', email := ''ann@example.org''\<rparr>)))
       = ''Name and email required''
   \<and> users (fst (handleSubmit_begin plain_platform 1700000000000 ''2023-11-14T22:13:20.000Z''
        ((initial_state False)\<lparr>users := [sample_user 1], name := ''  '', email := ''ann@example.org''\<rparr>)))
       = [sample_user 1]"
  using handleSubmit_validation
    [of "(initial_state False)\<lparr>users := [sample_user 1], name := ''  '', email := ''ann@example.org''\<rparr>"
        plain_platform 1700000000000 "''2023-11-14T22:13:20.000Z''"]
  by (simp add: blank_def is_space_def)

subsection \<open>C4: rejected files\<close>

text \<open>
  Claim C4: a file whose type does not start with \<^verbatim>\<open>image/\<close>, or whose size is above
  5 * 1024 * 1024 bytes, gets the message of its failure (the type is looked at first),
  no reader is started for it, and the avatar preview and the avatar file stay as they
  are.
\<close>

theorem processFile_rejects:
  assumes "\<not> prefix ''image/'' (file_type f) \<or> file_size f > 5 * 1024 * 1024"
  shows "error (fst (processFile (Some f) s)) =
           (if \<not> prefix ''image/'' (file_type f) then ''Please select a valid image.''
            else ''Image must be < 5 MB.'')
         \<and> avatarPreview (fst (processFile (Some f) s)) = avatarPreview s
         \<and> avatarFile (fst (processFile (Some f) s)) = avatarFile s
         \<and> \<not> snd (processFile (Some f) s)"
  using assms by (auto simp: processFile_def)

theorem processFile_rejects_witness:
  "error (fst (processFile (Some \<lparr>file_type = ''image/png'', file_size = 5242881\<rparr>)
        ((initial_state False)\<lparr>avatarPreview := Some ''data:old''\<rparr>))) = ''Image must be < 5 MB.''
   \<and> avatarPreview (fst (processFile (Some \<lparr>file_type = ''image/png'', file_size = 5242881\<rparr>)
        ((initial_state False)\<lparr>avatarPreview := Some ''data:old''\<rparr>))) = Some ''data:old''
   \<and> error (fst (processFile (Some \<lparr>file_type = ''text/plain'', file_size = 12\<rparr>)
        (initial_state False))) = ''Please select a valid image.''"
  using processFile_rejects
    [of "\<lparr>file_type = ''image/png'', file_size = 5242881\<rparr>"
        "(initial_state False)\<lparr>avatarPreview := Some ''data:old''\<rparr>"]
    processFile_rejects
    [of "\<lparr>file_type = ''text/plain'', file_size = 12\<rparr>" "initial_state False"]
  by simp

subsection \<open>C5: the id of a created post\<close>

text \<open>
  Claim C5: after a successful creation the new post stands at the head of the list with
  the client's time as its id, whatever id the server sent, and the posts held before
  follow it unchanged.
\<close>

theorem createPost_client_id:
  "posts (createPost_resume now (Resolved True (Some created)) s)
     = created\<lparr>post_id := NumId now\<rparr> # posts s
   \<and> createPost_resume now (Resolved True (Some (created\<lparr>post_id := i\<rparr>))) s
     = createPost_resume now (Resolved True (Some created)) s"
  by (simp add: createPost_resume_def)

theorem createPost_client_id_witness:
  "posts (createPost_resume 1700000000000 (Resolved True (Some (sample_post 101)))
      ((initial_state False)\<lparr>posts := [sample_post 1, sample_post 2]\<rparr>))
     = [(sample_post 101)\<lparr>post_id := NumId 1700000000000\<rparr>, sample_post 1, sample_post 2]"
  using createPost_client_id
    [of 1700000000000 "sample_post 101"
        "(initial_state False)\<lparr>posts := [sample_post 1, sample_post 2]\<rparr>"]
  by simp

subsection \<open>C6: closing the modal\<close>

text \<open>
  Claim C6: \<^verbatim>\<open>closePosts\<close> empties the posts and the albums, deselects the user and hides
  the new-post form, in every state.
\<close>

theorem closePosts_clears:
  "posts (closePosts s) = [] \<and> albums (closePosts s) = []
   \<and> selectedUser (closePosts s) = None \<and> \<not> showPostForm (closePosts s)"
  by (simp add: closePosts_def)

theorem closePosts_clears_witness:
  "posts (closePosts ((initial_state False)\<lparr>selectedUser := Some (sample_user 1),
      posts := [sample_post 1], albums := [sample_album 1], showPostForm := True\<rparr>)) = []
   \<and> albums (closePosts ((initial_state False)\<lparr>selectedUser := Some (sample_user 1),
      posts := [sample_post 1], albums := [sample_album 1], showPostForm := True\<rparr>)) = []
   \<and> selectedUser (closePosts ((initial_state False)\<lparr>selectedUser := Some (sample_user 1),
      posts := [sample_post 1], albums := [sample_album 1], showPostForm := True\<rparr>)) = None
   \<and> \<not> showPostForm (closePosts ((initial_state False)\<lparr>selectedUser := Some (sample_user 1),
      posts := [sample_post 1], albums := [sample_album 1], showPostForm := True\<rparr>))"
  using closePosts_clears
    [of "(initial_state False)\<lparr>selectedUser := Some (sample_user 1),
      posts := [sample_post 1], albums := [sample_album 1], showPostForm := True\<rparr>"]
  by simp

subsection \<open>C7: albums and their thumbnails\<close>

text \<open>
  Claim C7 says that each stored album carries the thumbnail URL of the first photo
  returned for it. The source writes \<^verbatim>\<open>photos[0]?.thumbnailUrl || null\<close>, so a first
  photo whose thumbnail URL is the empty string gives \<^verbatim>\<open>null\<close>, not that URL.
\<close>

theorem loadAlbums_empty_thumbnail:
  "map album_thumbnailUrl (albums (fst (loadAlbums_resume
      (Resolved True (Some [(sample_album 1, Resolved True (Some [sample_photo (Some [])]))]))
      (initial_state False))))
    \<noteq> [photo_thumbnailUrl (sample_photo (Some []))]"
  by (simp add: loadAlbums_resume_def albumWithThumb_def firstThumbnail_def or_else_def
      sample_photo_def sample_album_def)

text \<open>
  Claim C7, amended: for every album list the albums endpoint returns, \<^verbatim>\<open>loadAlbums\<close>
  issues exactly one photo request for each album, with the id of the album and
  \<^verbatim>\<open>_limit=1\<close>. When every photo request resolves with a body that parses (its \<^verbatim>\<open>ok\<close>
  flag is not looked at), each album is stored with the thumbnail URL of the first photo
  returned for it when that URL is a non-empty string, and with \<^verbatim>\<open>null\<close> otherwise (no
  photo, or a first photo with no thumbnail URL or an empty one). When one photo request
  rejects or its body does not parse, the error is set to the albums failure message and
  the album list is not updated.
\<close>

theorem loadAlbums_thumbnails:
  "snd (loadAlbums_resume (Resolved True (Some albumsData)) s)
     = map (\<lambda>ar. GetPhotos (album_id (fst ar)) 1) albumsData
   \<and> albums (fst (loadAlbums_resume
        (Resolved True (Some (map (\<lambda>(a, ok, photos). (a, Resolved ok (Some photos))) found))) s))
     = map (\<lambda>(a, ok, photos). a\<lparr>album_thumbnailUrl := firstThumbnail photos\<rparr>) found
   \<and> firstThumbnail photos =
       (case photos of [] \<Rightarrow> None
        | ph # rest \<Rightarrow> (case photo_thumbnailUrl ph of None \<Rightarrow> None
                          | Some t \<Rightarrow> if t = [] then None else Some t))
   \<and> ((\<exists>ar\<in>set albumsData. parsed (snd ar) = None) \<longrightarrow>
        error (fst (loadAlbums_resume (Resolved True (Some albumsData)) s)) = ''Failed to load albums.''
        \<and> albums (fst (loadAlbums_resume (Resolved True (Some albumsData)) s)) = albums s)"
proof -
  have a: "snd (loadAlbums_resume (Resolved True (Some albumsData)) s)
     = map (\<lambda>ar. GetPhotos (album_id (fst ar)) 1) albumsData"
    by (simp add: loadAlbums_resume_def photo_request_def comp_def)
  have m: "those (map albumWithThumb (map (\<lambda>(a, ok, photos). (a, Resolved ok (Some photos))) found))
      = Some (map (\<lambda>(a, ok, photos). a\<lparr>album_thumbnailUrl := firstThumbnail photos\<rparr>) found)"
    by (induction found) (auto simp: albumWithThumb_def)
  have b: "albums (fst (loadAlbums_resume
        (Resolved True (Some (map (\<lambda>(a, ok, photos). (a, Resolved ok (Some photos))) found))) s))
     = map (\<lambda>(a, ok, photos). a\<lparr>album_thumbnailUrl := firstThumbnail photos\<rparr>) found"
    unfolding loadAlbums_resume_def fetched.simps
    by (simp only: m if_True option.case fst_conv) simp
  have c: "firstThumbnail photos =
       (case photos of [] \<Rightarrow> None
        | ph # rest \<Rightarrow> (case photo_thumbnailUrl ph of None \<Rightarrow> None
                          | Some t \<Rightarrow> if t = [] then None else Some t))"
    by (simp add: firstThumbnail_def or_else_def split: list.split option.split)
  have d: "(\<exists>ar\<in>set albumsData. parsed (snd ar) = None) \<longrightarrow>
        error (fst (loadAlbums_resume (Resolved True (Some albumsData)) s)) = ''Failed to load albums.''
        \<and> albums (fst (loadAlbums_resume (Resolved True (Some albumsData)) s)) = albums s"
  proof
    assume "\<exists>ar\<in>set albumsData. parsed (snd ar) = None"
    then obtain ar where ar: "ar \<in> set albumsData" "parsed (snd ar) = None"
      by blast
    then have "albumWithThumb ar = None"
      by (simp add: albumWithThumb_def)
    with ar(1) have "those (map albumWithThumb albumsData) = None"
      unfolding those_map_None by blast
    then show "error (fst (loadAlbums_resume (Resolved True (Some albumsData)) s)) = ''Failed to load albums.''
        \<and> albums (fst (loadAlbums_resume (Resolved True (Some albumsData)) s)) = albums s"
      by (simp add: loadAlbums_resume_def)
  qed
  from a b c d show ?thesis by blast
qed

theorem loadAlbums_thumbnails_witness:
  "snd (loadAlbums_resume (Resolved True (Some
        [(sample_album 1, Resolved True (Some [sample_photo (Some ''t.png'')])),
         (sample_album 2, Rejected)]))
      ((initial_state False)\<lparr>albums := [sample_album 9]\<rparr>))
     = [GetPhotos (NumId 1) 1, GetPhotos (NumId 2) 1]
   \<and> error (fst (loadAlbums_resume (Resolved True (Some
        [(sample_album 1, Resolved True (Some [sample_photo (Some ''t.png'')])),
         (sample_album 2, Rejected)]))
      ((initial_state False)\<lparr>albums := [sample_album 9]\<rparr>))) = ''Failed to load albums.''
   \<and> albums (fst (loadAlbums_resume (Resolved True (Some
        [(sample_album 1, Resolved True (Some [sample_photo (Some ''t.png'')])),
         (sample_album 2, Rejected)]))
      ((initial_state False)\<lparr>albums := [sample_album 9]\<rparr>))) = [sample_album 9]
   \<and> albums (fst (loadAlbums_resume (Resolved True (Some
        [(sample_album 1, Resolved True (Some [sample_photo (Some ''t.png'')])),
         (sample_album 2, Resolved False (Some []))]))
      (initial_state False)))
     = [(sample_album 1)\<lparr>album_thumbnailUrl := Some ''t.png''\<rparr>, sample_album 2]"
  using loadAlbums_thumbnails
    [of "[(sample_album 1, Resolved True (Some [sample_photo (Some ''t.png'')])),
          (sample_album 2, Rejected)]"
        "(initial_state False)\<lparr>albums := [sample_album 9]\<rparr>"
        "[]" "[]"]
    loadAlbums_thumbnails
    [of "[]" "initial_state False"
        "[(sample_album 1, True, [sample_photo (Some ''t.png'')]), (sample_album 2, False, [])]"
        "[sample_photo (Some ''t.png'')]"]
  by (simp add: sample_album_def sample_photo_def)

subsection \<open>C8: deleting a user\<close>

text \<open>
  Claim C8: after the user has confirmed, \<^verbatim>\<open>handleDelete\<close> sends the request and, when
  the request resolves, removes the user with that id from the list whatever the status
  of the response, leaving the error as it is; only when the request rejects does it set
  the error to \<^verbatim>\<open>Delete failed.\<close> and keep the list.
\<close>

theorem handleDelete_ignores_status:
  "handleDelete_begin True i s = (s\<lparr>formLoading := True\<rparr>, [DeleteUser i])
   \<and> users (handleDelete_resume i (Resolved ok (body :: 'a option)) s') = filter (\<lambda>u. user_id u \<noteq> i) (users s')
   \<and> error (handleDelete_resume i (Resolved ok body) s') = error s'
   \<and> users (handleDelete_resume i (Rejected :: 'a response) s') = users s'
   \<and> error (handleDelete_resume i (Rejected :: 'a response) s') = ''Delete failed.''"
  by (simp add: handleDelete_begin_def handleDelete_resume_def)

theorem handleDelete_ignores_status_witness:
  "users (handleDelete_resume (NumId 1) (Resolved False (None :: unit option))
      ((initial_state False)\<lparr>users := [sample_user 1, sample_user 2]\<rparr>)) = [sample_user 2]
   \<and> users (handleDelete_resume (NumId 1) (Rejected :: unit response)
      ((initial_state False)\<lparr>users := [sample_user 1, sample_user 2]\<rparr>))
     = [sample_user 1, sample_user 2]"
  using handleDelete_ignores_status
    [of "NumId 1" "initial_state False" False "None :: unit option"
        "(initial_state False)\<lparr>users := [sample_user 1, sample_user 2]\<rparr>"]
  by (simp add: sample_user_def)

subsection \<open>C9: the draft of a post outlives the modal\<close>

text \<open>
  Claim C9: \<^verbatim>\<open>closePosts\<close> leaves the title and the body of the new-post form as they
  are, so after the modal is closed and opened again, for any user and whatever the posts
  request returns, the form shows the old draft as soon as it is opened.
\<close>

theorem draft_survives_close:
  "postTitle (closePosts s) = postTitle s \<and> postBody (closePosts s) = postBody s
   \<and> post_form_view (addPostClick (loadPosts_resume r (fst (openUserPosts u (closePosts s)))))
       = Some (postTitle s, postBody s)"
  by (simp add: closePosts_def post_form_view_def addPostClick_def loadPosts_resume_def
      openUserPosts_def loadPosts_begin_def split: option.split)

theorem draft_survives_close_witness:
  "post_form_view (addPostClick (loadPosts_resume (Resolved True (Some [sample_post 1]))
     (fst (openUserPosts (sample_user 2)
       (closePosts ((initial_state False)\<lparr>selectedUser := Some (sample_user 1),
          showPostForm := True, postTitle := ''Draft'', postBody := ''Not sent''\<rparr>))))))
     = Some (''Draft'', ''Not sent'')"
  using draft_survives_close
    [of "(initial_state False)\<lparr>selectedUser := Some (sample_user 1),
          showPostForm := True, postTitle := ''Draft'', postBody := ''Not sent''\<rparr>"
        "Resolved True (Some [sample_post 1])" "sample_user 2"]
  by simp

subsection \<open>C10: the error and the loading flags of the three loads\<close>

text \<open>
  Claim C10 says that the loading flag of a load is true during the whole operation, for
  every execution. Each kind of load has one shared flag and nothing counts the loads in
  flight, so the claim fails when two loads of one kind overlap. Here the modal is opened
  for one user, closed, and opened for another; then the posts of the first user arrive.
  Two posts requests were issued and one was answered, yet the flag is down while the
  second load is still pending.
\<close>

theorem loadPosts_overlap_lowers_flag:
  "snd (run plain_platform (initial_state False)
      [PostsOpened (sample_user 1), ModalClosed, PostsOpened (sample_user 2),
       PostsArrived (Resolved True (Some [sample_post 1]))])
     = [GetPosts (NumId 1), GetPosts (NumId 2)]
   \<and> \<not> loadingPosts (fst (run plain_platform (initial_state False)
      [PostsOpened (sample_user 1), ModalClosed, PostsOpened (sample_user 2),
       PostsArrived (Resolved True (Some [sample_post 1]))]))"
  by (simp add: initial_state_def openUserPosts_def loadPosts_begin_def loadPosts_resume_def
      closePosts_def sample_user_def)

text \<open>
  Claim C10, amended: each of \<^verbatim>\<open>loadUsers\<close>, \<^verbatim>\<open>loadPosts\<close> and \<^verbatim>\<open>loadAlbums\<close> starts
  by clearing the error and raising its loading flag, and lowers the flag when it ends,
  on the success and on the failure path. The flag stays up during the operation as long
  as no other load of the same kind ends meanwhile: it is up after every run of events
  that holds no arrival of a response of that kind. (When two loads of one kind overlap,
  the first to end lowers the flag while the other is still pending.)
\<close>

theorem load_flags_without_overlap:
  "error (fst (loadUsers_begin s)) = [] \<and> loadingUsers (fst (loadUsers_begin s))
   \<and> \<not> loadingUsers (loadUsers_resume ru s)
   \<and> error (fst (loadPosts_begin i s)) = [] \<and> loadingPosts (fst (loadPosts_begin i s))
   \<and> \<not> loadingPosts (loadPosts_resume rp s)
   \<and> error (fst (loadAlbums_begin i s)) = [] \<and> loadingAlbums (fst (loadAlbums_begin i s))
   \<and> \<not> loadingAlbums (fst (loadAlbums_resume ra s))
   \<and> ((\<forall>e\<in>set es. \<forall>r. e \<noteq> UsersArrived r) \<longrightarrow>
        loadingUsers (fst (run p (fst (loadUsers_begin s)) es)))
   \<and> ((\<forall>e\<in>set es. \<forall>r. e \<noteq> PostsArrived r) \<longrightarrow>
        loadingPosts (fst (run p (fst (loadPosts_begin i s)) es)))
   \<and> ((\<forall>e\<in>set es. \<forall>r. e \<noteq> AlbumsArrived r) \<longrightarrow>
        loadingAlbums (fst (run p (fst (loadAlbums_begin i s)) es)))"
proof -
  have starts: "error (fst (loadUsers_begin s)) = [] \<and> loadingUsers (fst (loadUsers_begin s))
      \<and> error (fst (loadPosts_begin i s)) = [] \<and> loadingPosts (fst (loadPosts_begin i s))
      \<and> error (fst (loadAlbums_begin i s)) = [] \<and> loadingAlbums (fst (loadAlbums_begin i s))"
    by (simp add: loadUsers_begin_def loadPosts_begin_def loadAlbums_begin_def)
  have ends: "\<not> loadingUsers (loadUsers_resume ru s) \<and> \<not> loadingPosts (loadPosts_resume rp s)
      \<and> \<not> loadingAlbums (fst (loadAlbums_resume ra s))"
    by (simp add: loadUsers_resume_def loadPosts_resume_def loadAlbums_resume_def
        split: option.split)
  have hu: "(\<forall>e\<in>set es. \<forall>r. e \<noteq> UsersArrived r) \<longrightarrow>
        loadingUsers (fst (run p (fst (loadUsers_begin s)) es))"
    using run_users_flag_held [of es "fst (loadUsers_begin s)" p] starts by blast
  have hp: "(\<forall>e\<in>set es. \<forall>r. e \<noteq> PostsArrived r) \<longrightarrow>
        loadingPosts (fst (run p (fst (loadPosts_begin i s)) es))"
    using run_posts_flag_held [of es "fst (loadPosts_begin i s)" p] starts by blast
  have ha: "(\<forall>e\<in>set es. \<forall>r. e \<noteq> AlbumsArrived r) \<longrightarrow>
        loadingAlbums (fst (run p (fst (loadAlbums_begin i s)) es))"
    using run_albums_flag_held [of es "fst (loadAlbums_begin i s)" p] starts by blast
  from starts ends hu hp ha show ?thesis by blast
qed

theorem load_flags_without_overlap_witness:
  "error (fst (loadAlbums_begin (NumId 1) ((initial_state False)\<lparr>error := ''Delete failed.''\<rparr>))) = []
   \<and> loadingAlbums (fst (loadAlbums_begin (NumId 1) ((initial_state False)\<lparr>error := ''Delete failed.''\<rparr>)))
   \<and> \<not> loadingAlbums (fst (loadAlbums_resume Rejected
         ((initial_state False)\<lparr>error := ''Delete failed.''\<rparr>)))
   \<and> loadingPosts (fst (run plain_platform
         (fst (loadPosts_begin (NumId 1) ((initial_state False)\<lparr>error := ''Delete failed.''\<rparr>)))
         [AddPostClicked, PostTitleTyped ''Draft'', AlbumsTabClicked, ModalClosed]))"
  using load_flags_without_overlap
    [of "(initial_state False)\<lparr>error := ''Delete failed.''\<rparr>" _ "NumId 1" _ Rejected
        "[AddPostClicked, PostTitleTyped ''Draft'', AlbumsTabClicked, ModalClosed]"
        plain_platform]
  by simp

end
